theory Spec2Isabelle
  imports Complex_Main "HOL-Library.Stream"
begin

section \<open>Material interactions of the path tracer (interactions.h)\<close>

text \<open>
  The source computes on single-precision floats. This development embeds every
  \<^verbatim>\<open>float\<close> as a \<^typ>\<open>real\<close> and every float operation as the exact real
  operation, so rounding, overflow, infinities and NaN are outside the model. Where the
  source divides by zero (IEEE gives an infinity or NaN) HOL's total division gives 0.
  The general theorems below either carry hypotheses under which no division by zero
  occurs, or state the result as the very expression the source evaluates; the one place
  where a division by zero is evaluated is named next to its theorem.
\<close>

subsection \<open>Vectors: the operations of glm::vec3 the source calls\<close>

text \<open>
  glm is a library outside the repository. The definitions below follow its generic
  implementations of \<^verbatim>\<open>dot\<close>, \<^verbatim>\<open>cross\<close>, \<^verbatim>\<open>normalize\<close>, \<^verbatim>\<open>reflect\<close>,
  \<^verbatim>\<open>refract\<close> and \<^verbatim>\<open>clamp\<close>, which are the formulas of the GLSL specification.
\<close>

datatype vec3 = Vec3 (vx: real) (vy: real) (vz: real)

definition vzero :: vec3 where
  "vzero = Vec3 0 0 0"

definition vadd :: "vec3 \<Rightarrow> vec3 \<Rightarrow> vec3" where
  "vadd a b = Vec3 (vx a + vx b) (vy a + vy b) (vz a + vz b)"

definition vsub :: "vec3 \<Rightarrow> vec3 \<Rightarrow> vec3" where
  "vsub a b = Vec3 (vx a - vx b) (vy a - vy b) (vz a - vz b)"

definition vneg :: "vec3 \<Rightarrow> vec3" where
  "vneg a = Vec3 (- vx a) (- vy a) (- vz a)"

definition smul :: "real \<Rightarrow> vec3 \<Rightarrow> vec3" where
  \<comment> \<open>vector times scalar, \<^verbatim>\<open>v * s\<close> and \<^verbatim>\<open>s * v\<close>\<close>
  "smul s a = Vec3 (s * vx a) (s * vy a) (s * vz a)"

definition vmul :: "vec3 \<Rightarrow> vec3 \<Rightarrow> vec3" where
  \<comment> \<open>componentwise product, \<^verbatim>\<open>a * b\<close> and \<^verbatim>\<open>a *= b\<close> on two vectors\<close>
  "vmul a b = Vec3 (vx a * vx b) (vy a * vy b) (vz a * vz b)"

definition dot :: "vec3 \<Rightarrow> vec3 \<Rightarrow> real" where
  "dot a b = vx a * vx b + vy a * vy b + vz a * vz b"

definition cross :: "vec3 \<Rightarrow> vec3 \<Rightarrow> vec3" where
  "cross a b = Vec3 (vy a * vz b - vy b * vz a)
                    (vz a * vx b - vz b * vx a)
                    (vx a * vy b - vx b * vy a)"

definition vlength :: "vec3 \<Rightarrow> real" where
  "vlength a = sqrt (dot a a)"

definition normalize_vec :: "vec3 \<Rightarrow> vec3" where
  \<comment> \<open>glm: \<^verbatim>\<open>v * inversesqrt(dot(v, v))\<close>; on the zero vector the float result is NaN,
      here it is the zero vector\<close>
  "normalize_vec a = smul (1 / sqrt (dot a a)) a"

definition reflect :: "vec3 \<Rightarrow> vec3 \<Rightarrow> vec3" where
  \<comment> \<open>glm: \<^verbatim>\<open>I - N * dot(N, I) * 2\<close>\<close>
  "reflect I N = vsub I (smul (dot N I * 2) N)"

definition refract :: "vec3 \<Rightarrow> vec3 \<Rightarrow> real \<Rightarrow> vec3" where
  \<comment> \<open>glm: \<^verbatim>\<open>k = 1 - eta * eta * (1 - dot(N, I) * dot(N, I))\<close>, the zero vector when
      \<^verbatim>\<open>k < 0\<close>, else \<^verbatim>\<open>eta * I - (eta * dot(N, I) + sqrt(k)) * N\<close>\<close>
  "refract I N eta =
     (let dotValue = dot N I;
          k = 1 - eta * eta * (1 - dotValue * dotValue)
      in if k \<ge> 0 then vsub (smul eta I) (smul (eta * dotValue + sqrt k) N)
         else vzero)"

definition clamp :: "real \<Rightarrow> real \<Rightarrow> real \<Rightarrow> real" where
  \<comment> \<open>glm: \<^verbatim>\<open>min(max(x, minVal), maxVal)\<close>\<close>
  "clamp v lo hi = min (max v lo) hi"

subsection \<open>Constants, records and the random engine\<close>

definition TWO_PI :: real where
  \<comment> \<open>Modelled from the spec: the macro is declared outside interactions.h; the spec
      writes \<^verbatim>\<open>phi = 2 pi u2\<close>.\<close>
  "TWO_PI = 2 * pi"

definition SQRT_OF_ONE_THIRD :: real where
  \<comment> \<open>Modelled from the spec: the macro is declared outside interactions.h; the spec
      writes \<^verbatim>\<open>sqrt(1/3)\<close>.\<close>
  "SQRT_OF_ONE_THIRD = sqrt (1 / 3)"

text \<open>
  Modelled from the spec: the struct declarations of Material, Ray and PathSegment are
  outside interactions.h. The fields are the ones the source reads and writes, with the
  types the spec gives them (the two material flags as booleans); the termination flag
  has the source's name \<^verbatim>\<open>dead\<close>.
\<close>

record Specular =
  exponent :: real
  color :: vec3

record Material =
  color :: vec3
  specular :: Specular
  hasReflective :: bool
  hasRefractive :: bool
  indexOfRefraction :: real
  emittance :: real

record Ray =
  origin :: vec3
  direction :: vec3

record PathSegment =
  ray :: Ray
  color :: vec3
  pixelIndex :: int
  remainingBounces :: int
  dead :: bool

text \<open>
  The random engine is the stream of the uniform draws it will produce; one call of
  \<^verbatim>\<open>u01(rng)\<close> returns the head and advances the engine to the tail.
\<close>

type_synonym rng = "real stream"

definition u01 :: "rng \<Rightarrow> real \<times> rng" where
  "u01 g = (shd g, stl g)"

subsection \<open>calculateRandomDirectionInHemisphere\<close>

definition directionNotNormal :: "vec3 \<Rightarrow> vec3" where
  "directionNotNormal normal =
     (if \<bar>vx normal\<bar> < SQRT_OF_ONE_THIRD then Vec3 1 0 0
      else if \<bar>vy normal\<bar> < SQRT_OF_ONE_THIRD then Vec3 0 1 0
      else Vec3 0 0 1)"

definition calculateRandomDirectionInHemisphere :: "vec3 \<Rightarrow> rng \<Rightarrow> vec3 \<times> rng" where
  "calculateRandomDirectionInHemisphere normal g =
     (let (u1, g1) = u01 g;
          up = sqrt u1;
          over = sqrt (1 - up * up);
          (u2, g2) = u01 g1;
          around = u2 * TWO_PI;
          perpendicularDirection1 = normalize_vec (cross normal (directionNotNormal normal));
          perpendicularDirection2 = normalize_vec (cross normal perpendicularDirection1)
      in (vadd (vadd (smul up normal)
                     (smul (cos around * over) perpendicularDirection1))
               (smul (sin around * over) perpendicularDirection2),
          g2))"

subsection \<open>dielectric\<close>

definition dielectric :: "real \<Rightarrow> real \<Rightarrow> real \<Rightarrow> real" where
  "dielectric cosThetaI0 etaI etaT =
     (let cosThetaI = clamp cosThetaI0 (- 1) 1;
          sinThetaI = sqrt (max 0 (1 - cosThetaI * cosThetaI));
          sinThetaT = etaI / etaT * sinThetaI
      in if sinThetaT \<ge> 1 then 1
         else
           let cosThetaT = sqrt (max 0 (1 - sinThetaT * sinThetaT));
               Rparl = ((etaT * cosThetaI) - (etaI * cosThetaT))
                       / ((etaT * cosThetaI) + (etaI * cosThetaT));
               Rperp = ((etaI * cosThetaI) - (etaT * cosThetaT))
                       / ((etaI * cosThetaI) + (etaT * cosThetaT))
           in (Rparl * Rparl + Rperp * Rperp) / 2)"

subsection \<open>scatterRay\<close>

text \<open>
  The refractive branch first computes the refracted direction and the Fresnel term
  from the sign of \<^verbatim>\<open>cosThetaI\<close>; the pair is named here so that theorems can speak
  about the local variables \<^verbatim>\<open>wi\<close> and \<^verbatim>\<open>f\<close>.
\<close>

definition refractedAndFresnel :: "vec3 \<Rightarrow> vec3 \<Rightarrow> Material \<Rightarrow> vec3 \<times> real" where
  "refractedAndFresnel wo normal m =
     (let cosThetaI = dot normal wo
      in if cosThetaI < 0
         then (refract wo normal (1 / indexOfRefraction m),
               dielectric (- cosThetaI) 1 (indexOfRefraction m))
         else (refract wo (vneg normal) (indexOfRefraction m),
               dielectric cosThetaI (indexOfRefraction m) 1))"

definition finalize :: "PathSegment \<Rightarrow> vec3 \<Rightarrow> vec3 \<Rightarrow> PathSegment" where
  \<comment> \<open>the two assignments after the material branches\<close>
  "finalize ps intersect wi =
     ps\<lparr>ray := (ray ps)\<lparr>direction := normalize_vec wi,
                         origin := vadd intersect (smul (1 / 10000) wi)\<rparr>\<rparr>"

definition scatterRay ::
  "PathSegment \<Rightarrow> vec3 \<Rightarrow> vec3 \<Rightarrow> Material \<Rightarrow> rng \<Rightarrow> int \<Rightarrow> PathSegment \<times> rng" where
  "scatterRay pathSegment intersect normal m g depth =
     (let wo = normalize_vec (direction (ray pathSegment))
      in if emittance m > 0 then (pathSegment\<lparr>dead := True\<rparr>, g)
         else if hasRefractive m then
           (let cosThetaI = dot normal wo;
                (wi, f) = refractedAndFresnel wo normal m
            in if f > 1
               then (finalize
                       (pathSegment\<lparr>color := vmul (color pathSegment)
                          (smul (max 1 (f / \<bar>cosThetaI\<bar>)) (Specular.color (specular m)))\<rparr>)
                       intersect (reflect wo normal), g)
               else (finalize
                       (pathSegment\<lparr>color := vmul (color pathSegment)
                          (smul (max 1 ((1 - f) / \<bar>cosThetaI\<bar>)) (Specular.color (specular m)))\<rparr>)
                       intersect wi, g))
         else if hasReflective m then
           (finalize
              (pathSegment\<lparr>color := vmul (color pathSegment) (Specular.color (specular m))\<rparr>)
              intersect (reflect wo normal), g)
         else
           (let (wi, g') = calculateRandomDirectionInHemisphere normal g
            in (finalize pathSegment intersect wi, g')))"

subsection \<open>Example inputs\<close>

definition upNormal :: vec3 where
  "upNormal = Vec3 0 0 1"

definition glass :: Material where
  "glass = \<lparr>Material.color = Vec3 1 1 1,
            specular = \<lparr>exponent = 0, Specular.color = Vec3 1 1 1\<rparr>,
            hasReflective = False, hasRefractive = True,
            indexOfRefraction = 3 / 2, emittance = 0\<rparr>"

definition mirror :: Material where
  "mirror = \<lparr>Material.color = Vec3 1 1 1,
             specular = \<lparr>exponent = 0, Specular.color = Vec3 (4 / 5) (4 / 5) (4 / 5)\<rparr>,
             hasReflective = True, hasRefractive = False,
             indexOfRefraction = 0, emittance = 0\<rparr>"

definition chalk :: Material where
  "chalk = \<lparr>Material.color = Vec3 (1 / 2) (1 / 4) (1 / 4),
            specular = \<lparr>exponent = 0, Specular.color = Vec3 0 0 0\<rparr>,
            hasReflective = False, hasRefractive = False,
            indexOfRefraction = 0, emittance = 0\<rparr>"

definition lamp :: Material where
  "lamp = \<lparr>Material.color = Vec3 1 1 1,
           specular = \<lparr>exponent = 0, Specular.color = Vec3 0 0 0\<rparr>,
           hasReflective = False, hasRefractive = False,
           indexOfRefraction = 0, emittance = 5\<rparr>"

definition downSegment :: PathSegment where
  \<comment> \<open>a path arriving head-on from above the surface\<close>
  "downSegment = \<lparr>ray = \<lparr>origin = Vec3 0 0 1, direction = Vec3 0 0 (- 1)\<rparr>,
                  color = Vec3 1 1 1, pixelIndex = 0, remainingBounces = 8, dead = False\<rparr>"

definition insideSegment :: PathSegment where
  \<comment> \<open>a path inside the medium, leaving through the surface at 53 degrees from the
      normal: beyond the critical angle of an index of 3/2\<close>
  "insideSegment = \<lparr>ray = \<lparr>origin = Vec3 (- 4 / 5) 0 (- 3 / 5),
                            direction = Vec3 (4 / 5) 0 (3 / 5)\<rparr>,
                    color = Vec3 1 1 1, pixelIndex = 0, remainingBounces = 8, dead = False\<rparr>"

definition antiGlass :: Material where
  \<comment> \<open>a refractive material whose index of refraction is negative\<close>
  "antiGlass = \<lparr>Material.color = Vec3 1 1 1,
                specular = \<lparr>exponent = 0, Specular.color = Vec3 1 1 1\<rparr>,
                hasReflective = False, hasRefractive = True,
                indexOfRefraction = - 3 / 2, emittance = 0\<rparr>"

definition ice :: Material where
  \<comment> \<open>index 5/4: its critical angle is the angle of \<open>insideSegment\<close>, sine 4/5\<close>
  "ice = \<lparr>Material.color = Vec3 1 1 1,
          specular = \<lparr>exponent = 0, Specular.color = Vec3 1 1 1\<rparr>,
          hasReflective = False, hasRefractive = True,
          indexOfRefraction = 5 / 4, emittance = 0\<rparr>"

section \<open>Vector algebra\<close>

lemma dot_commute: "dot a b = dot b a"
  by (simp add: dot_def mult.commute)

lemma dot_vadd_left: "dot (vadd a b) c = dot a c + dot b c"
  by (simp add: dot_def vadd_def algebra_simps)

lemma dot_vadd_right: "dot c (vadd a b) = dot c a + dot c b"
  by (simp add: dot_def vadd_def algebra_simps)

lemma dot_smul_left: "dot (smul k a) b = k * dot a b"
  by (simp add: dot_def smul_def algebra_simps)

lemma dot_smul_right: "dot a (smul k b) = k * dot a b"
  by (simp add: dot_def smul_def algebra_simps)

lemma dot_vneg_left: "dot (vneg a) b = - dot a b"
  by (simp add: dot_def vneg_def)

lemma dot_vsub_left: "dot (vsub a b) c = dot a c - dot b c"
  by (simp add: dot_def vsub_def algebra_simps)

lemma dot_vsub_right: "dot c (vsub a b) = dot c a - dot c b"
  by (simp add: dot_def vsub_def algebra_simps)

lemma dot_self_nonneg: "0 \<le> dot a a"
  by (simp add: dot_def)

lemma dot_self_zero_iff: "dot a a = 0 \<longleftrightarrow> a = vzero"
proof (cases a)
  case (Vec3 p q r)
  have "p * p + q * q + r * r = 0 \<longleftrightarrow> p = 0 \<and> q = 0 \<and> r = 0"
    by (smt (verit) mult_eq_0_iff zero_le_square add_nonneg_eq_0_iff add_nonneg_nonneg)
  with Vec3 show ?thesis by (simp add: dot_def vzero_def)
qed

lemma nonzero_if_dot_pos: "0 < dot a a \<Longrightarrow> a \<noteq> vzero"
  using dot_self_zero_iff [of a] by auto

lemma dot_cross_left: "dot a (cross a b) = 0"
  by (simp add: dot_def cross_def algebra_simps)

lemma dot_cross_right: "dot b (cross a b) = 0"
  by (simp add: dot_def cross_def algebra_simps)

text \<open>Lagrange's identity: the squared length of a cross product.\<close>

lemma dot_cross_cross: "dot (cross a b) (cross a b) = dot a a * dot b b - dot a b * dot a b"
  by (simp add: dot_def cross_def algebra_simps)

lemma dot_normalize_self:
  assumes "a \<noteq> vzero"
  shows "dot (normalize_vec a) (normalize_vec a) = 1"
proof -
  have pos: "0 < dot a a"
    using assms dot_self_nonneg [of a] dot_self_zero_iff [of a] by linarith
  have "dot (normalize_vec a) (normalize_vec a)
      = (1 / sqrt (dot a a)) * ((1 / sqrt (dot a a)) * dot a a)"
    by (simp add: normalize_vec_def dot_smul_left dot_smul_right)
  also have "\<dots> = dot a a / (sqrt (dot a a) * sqrt (dot a a))"
    by simp
  also have "\<dots> = 1"
    using pos by simp
  finally show ?thesis .
qed

lemma dot_normalize_right: "dot b (normalize_vec a) = dot b a / sqrt (dot a a)"
  by (simp add: normalize_vec_def dot_smul_right)

lemma vlength_one_iff: "vlength a = 1 \<longleftrightarrow> dot a a = 1"
  by (simp add: vlength_def)

lemma normalize_vec_unit: "dot a a = 1 \<Longrightarrow> normalize_vec a = a"
  by (cases a) (simp add: normalize_vec_def smul_def)

text \<open>Reflection about a unit normal keeps the length and flips the normal component.\<close>

lemma reflect_preserves_length:
  assumes "dot N N = 1"
  shows "dot (reflect I N) (reflect I N) = dot I I"
  using assms
  by (simp add: reflect_def dot_vsub_left dot_vsub_right dot_smul_left dot_smul_right
      dot_commute [of I N] algebra_simps)

lemma reflect_flips_normal_component:
  assumes "dot N N = 1"
  shows "dot N (reflect I N) = - dot N I"
  using assms
  by (simp add: reflect_def dot_vsub_right dot_smul_right)

section \<open>The hemisphere sampler\<close>

lemma abs_ge_sqrt_third: "\<bar>t\<bar> \<ge> sqrt (1 / 3) \<longleftrightarrow> t * t \<ge> 1 / (3::real)"
proof -
  have "sqrt (1 / 3) \<le> \<bar>t\<bar> \<longleftrightarrow> sqrt (1 / 3) \<le> sqrt (t\<^sup>2)"
    by simp
  also have "\<dots> \<longleftrightarrow> 1 / 3 \<le> t\<^sup>2"
    by (rule real_sqrt_le_iff)
  finally show ?thesis by (simp add: power2_eq_square)
qed

text \<open>
  The three-way test: when the first two components of a unit normal both reach
  \<open>sqrt (1/3)\<close> in magnitude, their squares already sum to 2/3, which leaves at most
  1/3 for the square of the third.
\<close>

lemma directionNotNormal_dot_sq:
  assumes "dot n n = 1"
  shows "dot n (directionNotNormal n) * dot n (directionNotNormal n) \<le> 1 / 3"
    and "dot (directionNotNormal n) (directionNotNormal n) = 1"
proof -
  obtain p q r where n: "n = Vec3 p q r" by (cases n)
  from assms n have u: "p * p + q * q + r * r = 1" by (simp add: dot_def)
  show "dot (directionNotNormal n) (directionNotNormal n) = 1"
    by (simp add: directionNotNormal_def dot_def)
  show "dot n (directionNotNormal n) * dot n (directionNotNormal n) \<le> 1 / 3"
  proof (cases "\<bar>p\<bar> < sqrt (1 / 3)")
    case True
    then have "\<not> 1 / 3 \<le> p * p" using abs_ge_sqrt_third [of p] by simp
    with True n show ?thesis
      by (simp add: directionNotNormal_def SQRT_OF_ONE_THIRD_def dot_def)
  next
    case px: False
    then have p: "1 / 3 \<le> p * p" using abs_ge_sqrt_third [of p] by simp
    show ?thesis
    proof (cases "\<bar>q\<bar> < sqrt (1 / 3)")
      case True
      then have "\<not> 1 / 3 \<le> q * q" using abs_ge_sqrt_third [of q] by simp
      with True px n show ?thesis
        by (simp add: directionNotNormal_def SQRT_OF_ONE_THIRD_def dot_def)
    next
      case False
      then have q: "1 / 3 \<le> q * q" using abs_ge_sqrt_third [of q] by simp
      from p q u have "r * r \<le> 1 / 3" by linarith
      with False px n show ?thesis
        by (simp add: directionNotNormal_def SQRT_OF_ONE_THIRD_def dot_def)
    qed
  qed
qed

lemma cross_directionNotNormal_nonzero:
  assumes "dot n n = 1"
  shows "dot (cross n (directionNotNormal n)) (cross n (directionNotNormal n)) \<ge> 2 / 3"
  using directionNotNormal_dot_sq [OF assms] assms
  by (simp add: dot_cross_cross)

lemma perpendicular1:
  assumes "dot n n = 1"
  defines "p1 \<equiv> normalize_vec (cross n (directionNotNormal n))"
  shows "dot p1 p1 = 1" and "dot n p1 = 0"
proof -
  have "cross n (directionNotNormal n) \<noteq> vzero"
    using cross_directionNotNormal_nonzero [OF assms(1)] by (intro nonzero_if_dot_pos) simp
  then show "dot p1 p1 = 1"
    unfolding p1_def by (rule dot_normalize_self)
  show "dot n p1 = 0"
    unfolding p1_def by (simp add: dot_normalize_right dot_cross_left)
qed

lemma perpendicular2:
  assumes "dot n n = 1" and "dot p1 p1 = 1" and "dot n p1 = 0"
  defines "p2 \<equiv> normalize_vec (cross n p1)"
  shows "dot p2 p2 = 1" and "dot n p2 = 0" and "dot p1 p2 = 0"
proof -
  have c: "dot (cross n p1) (cross n p1) = 1"
    using assms(1-3) by (simp add: dot_cross_cross)
  then have "cross n p1 \<noteq> vzero"
    by (intro nonzero_if_dot_pos) simp
  then show "dot p2 p2 = 1"
    unfolding p2_def by (rule dot_normalize_self)
  show "dot n p2 = 0"
    unfolding p2_def by (simp add: dot_normalize_right dot_cross_left)
  show "dot p1 p2 = 0"
    unfolding p2_def by (simp add: dot_normalize_right dot_cross_right)
qed

text \<open>A combination of three orthonormal vectors: its squared length and its height.\<close>

lemma hemisphere_combination:
  fixes a b c :: real
  assumes n: "dot n n = 1" and p1: "dot p1 p1 = 1" and p2: "dot p2 p2 = 1"
    and np1: "dot n p1 = 0" and np2: "dot n p2 = 0" and p12: "dot p1 p2 = 0"
  defines "d \<equiv> vadd (vadd (smul a n) (smul b p1)) (smul c p2)"
  shows "dot d d = a * a + b * b + c * c" and "dot d n = a"
proof -
  have s: "dot p1 n = 0" "dot p2 n = 0" "dot p2 p1 = 0"
    using np1 np2 p12 by (simp_all add: dot_commute)
  show "dot d d = a * a + b * b + c * c"
    unfolding d_def
    by (simp add: dot_vadd_left dot_vadd_right dot_smul_left dot_smul_right
        n p1 p2 np1 np2 p12 s)
  show "dot d n = a"
    unfolding d_def
    by (simp add: dot_vadd_left dot_smul_left n s)
qed

lemma hemisphere_coefficients:
  assumes "0 \<le> u1" and "u1 \<le> 1"
  defines "up \<equiv> sqrt u1"
  defines "over \<equiv> sqrt (1 - up * up)"
  shows "up * up + (cos t * over) * (cos t * over) + (sin t * over) * (sin t * over) = 1"
proof -
  have up: "up * up = u1"
    using assms(1) by (simp add: up_def)
  have over: "over * over = 1 - u1"
    using assms(2) by (simp add: over_def up)
  have factor: "(p * over) * (p * over) + (q * over) * (q * over)
      = (over * over) * (p * p + q * q)" for p q :: real
    by (simp only: algebra_simps)
  have "cos t * cos t + sin t * sin t = 1"
    using sin_cos_squared_add2 [of t] by (simp only: power2_eq_square)
  then have "(cos t * over) * (cos t * over) + (sin t * over) * (sin t * over) = 1 - u1"
    by (simp only: factor over mult_1_right)
  then show ?thesis using up by simp
qed

text \<open>
  C10: for every unit-length normal, the reference axis picked by the three-way test has
  a dot product with the normal of magnitude at most \<open>sqrt (1/3)\<close>; hence the cross
  product of the normal with the axis is not the zero vector, and neither is the cross
  product of the normal with the first normalized perpendicular direction, so both
  normalizations divide by a nonzero length.
\<close>

theorem directionNotNormal_not_parallel:
  assumes "vlength n = 1"
  shows "\<bar>dot n (directionNotNormal n)\<bar> \<le> sqrt (1 / 3)
       \<and> cross n (directionNotNormal n) \<noteq> vzero
       \<and> cross n (normalize_vec (cross n (directionNotNormal n))) \<noteq> vzero"
proof -
  from assms have n: "dot n n = 1"
    by (simp add: vlength_one_iff)
  let ?e = "directionNotNormal n"
  have "\<not> (\<bar>dot n ?e\<bar> > sqrt (1 / 3))"
  proof
    assume a: "\<bar>dot n ?e\<bar> > sqrt (1 / 3)"
    then have "sqrt (1 / 3) < sqrt ((dot n ?e)\<^sup>2)" by simp
    then have "1 / 3 < (dot n ?e)\<^sup>2" by (simp only: real_sqrt_less_iff)
    with directionNotNormal_dot_sq(1) [OF n] show False
      by (simp add: power2_eq_square)
  qed
  then have 1: "\<bar>dot n ?e\<bar> \<le> sqrt (1 / 3)" by simp
  have 2: "cross n ?e \<noteq> vzero"
    using cross_directionNotNormal_nonzero [OF n] by (intro nonzero_if_dot_pos) simp
  have "dot (cross n (normalize_vec (cross n ?e))) (cross n (normalize_vec (cross n ?e))) = 1"
    using perpendicular1 [OF n] n by (simp add: dot_cross_cross)
  then have 3: "cross n (normalize_vec (cross n ?e)) \<noteq> vzero"
    by (intro nonzero_if_dot_pos) simp
  from 1 2 3 show ?thesis by simp
qed

theorem directionNotNormal_not_parallel_witness:
  "vlength upNormal = 1
   \<and> \<bar>dot upNormal (directionNotNormal upNormal)\<bar> \<le> sqrt (1 / 3)
   \<and> cross upNormal (directionNotNormal upNormal) \<noteq> vzero
   \<and> cross upNormal (normalize_vec (cross upNormal (directionNotNormal upNormal))) \<noteq> vzero"
proof -
  have u: "vlength upNormal = 1"
    by (simp add: vlength_def dot_def upNormal_def)
  from u directionNotNormal_not_parallel [OF u] show ?thesis by simp
qed

text \<open>
  C9: for every unit-length normal \<open>n\<close> and every first draw \<open>u1\<close> in [0,1) (the
  second draw may be any number), the direction \<open>d\<close> returned by
  calculateRandomDirectionInHemisphere has unit length and lies in the upper
  hemisphere: \<open>dot d n = sqrt u1\<close>, which is not negative.
\<close>

theorem calculateRandomDirectionInHemisphere_unit_upper:
  assumes "vlength n = 1" and "0 \<le> shd g" and "shd g < 1"
  shows "vlength (fst (calculateRandomDirectionInHemisphere n g)) = 1
       \<and> dot (fst (calculateRandomDirectionInHemisphere n g)) n = sqrt (shd g)
       \<and> dot (fst (calculateRandomDirectionInHemisphere n g)) n \<ge> 0"
proof -
  define p1 where "p1 = normalize_vec (cross n (directionNotNormal n))"
  define p2 where "p2 = normalize_vec (cross n p1)"
  define up where "up = sqrt (shd g)"
  define over where "over = sqrt (1 - up * up)"
  define around where "around = shd (stl g) * TWO_PI"
  define d where "d = vadd (vadd (smul up n) (smul (cos around * over) p1))
                           (smul (sin around * over) p2)"
  have d: "fst (calculateRandomDirectionInHemisphere n g) = d"
    by (simp add: calculateRandomDirectionInHemisphere_def u01_def Let_def
        d_def p1_def p2_def up_def over_def around_def)
  from assms(1) have n: "dot n n = 1"
    by (simp add: vlength_one_iff)
  have b1: "dot p1 p1 = 1" "dot n p1 = 0"
    unfolding p1_def using perpendicular1 [OF n] by simp_all
  have b2: "dot p2 p2 = 1" "dot n p2 = 0" "dot p1 p2 = 0"
    unfolding p2_def using perpendicular2 [OF n b1] by simp_all
  have "dot d d = up * up + (cos around * over) * (cos around * over)
                + (sin around * over) * (sin around * over)"
    unfolding d_def by (rule hemisphere_combination(1) [OF n b1(1) b2(1) b1(2) b2(2) b2(3)])
  also have "\<dots> = 1"
    unfolding over_def up_def using assms(2,3) by (intro hemisphere_coefficients) simp_all
  finally have len: "vlength d = 1"
    by (simp add: vlength_one_iff)
  have "dot d n = up"
    unfolding d_def by (rule hemisphere_combination(2) [OF n b1(1) b2(1) b1(2) b2(2) b2(3)])
  with len d show ?thesis
    by (simp add: up_def assms(2))
qed

theorem calculateRandomDirectionInHemisphere_unit_upper_witness:
  "vlength upNormal = 1 \<and> 0 \<le> shd (sconst (1 / 4 :: real)) \<and> shd (sconst (1 / 4 :: real)) < 1
   \<and> vlength (fst (calculateRandomDirectionInHemisphere upNormal (sconst (1 / 4)))) = 1
   \<and> dot (fst (calculateRandomDirectionInHemisphere upNormal (sconst (1 / 4)))) upNormal
       = sqrt (1 / 4)"
proof -
  have u: "vlength upNormal = 1"
    by (simp add: vlength_def dot_def upNormal_def)
  have lo: "0 \<le> shd (sconst (1 / 4 :: real))" and hi: "shd (sconst (1 / 4 :: real)) < 1"
    by simp_all
  from u lo hi calculateRandomDirectionInHemisphere_unit_upper [OF u lo hi]
  show ?thesis by simp
qed

section \<open>The Fresnel evaluator\<close>

lemma dielectric_sinThetaT_ge_1:
  "etaI / etaT * sqrt (max 0 (1 - clamp c (- 1) 1 * clamp c (- 1) 1)) \<ge> 1
     \<Longrightarrow> dielectric c etaI etaT = 1"
  by (simp add: dielectric_def Let_def)

lemma sqrt_16_25: "sqrt (16 / 25) = 4 / 5"
  by (rule real_sqrt_unique) (simp_all add: power2_eq_square)

lemma ratio_sq_le_1:
  fixes a b :: real
  assumes "0 \<le> a" and "0 < b"
  shows "((a - b) / (a + b)) * ((a - b) / (a + b)) \<le> 1"
proof -
  have pos: "0 < a + b" using assms by linarith
  have "\<bar>a - b\<bar> \<le> a + b" using assms by linarith
  then have "\<bar>(a - b) / (a + b)\<bar> \<le> 1"
    using pos by (simp add: abs_divide)
  then have "((a - b) / (a + b))\<^sup>2 \<le> 1"
    by (simp add: abs_square_le_1)
  then show ?thesis by (simp add: power2_eq_square)
qed

lemma half_sum_range:
  fixes p q :: real
  assumes "p \<le> 1" and "q \<le> 1" and "0 \<le> p" and "0 \<le> q"
  shows "0 \<le> (p + q) / 2 \<and> (p + q) / 2 \<le> 1"
  using assms by simp

lemma clamp_nonneg: "0 \<le> c \<Longrightarrow> 0 \<le> clamp c (- 1) 1 \<and> clamp c (- 1) 1 \<le> 1"
  by (simp add: clamp_def)

text \<open>
  With a non-negative cosine and positive indices, both denominators are positive
  whenever the function gets past the total-internal-reflection test, and each Fresnel
  term is a ratio \<open>(a - b) / (a + b)\<close> of magnitude at most 1.
\<close>

lemma dielectric_unit_interval:
  assumes "0 \<le> c" and "0 < etaI" and "0 < etaT"
  shows "0 \<le> dielectric c etaI etaT \<and> dielectric c etaI etaT \<le> 1"
proof -
  define cosThetaI where "cosThetaI = clamp c (- 1) 1"
  define sinThetaI where "sinThetaI = sqrt (max 0 (1 - cosThetaI * cosThetaI))"
  define sinThetaT where "sinThetaT = etaI / etaT * sinThetaI"
  define cosThetaT where "cosThetaT = sqrt (max 0 (1 - sinThetaT * sinThetaT))"
  define Rparl where "Rparl = ((etaT * cosThetaI) - (etaI * cosThetaT))
                       / ((etaT * cosThetaI) + (etaI * cosThetaT))"
  define Rperp where "Rperp = ((etaI * cosThetaI) - (etaT * cosThetaT))
                       / ((etaI * cosThetaI) + (etaT * cosThetaT))"
  have unfold: "dielectric c etaI etaT
      = (if sinThetaT \<ge> 1 then 1 else (Rparl * Rparl + Rperp * Rperp) / 2)"
    by (simp add: dielectric_def Let_def cosThetaI_def sinThetaI_def sinThetaT_def
        cosThetaT_def Rparl_def Rperp_def)
  show ?thesis
  proof (cases "sinThetaT \<ge> 1")
    case True
    with unfold show ?thesis by simp
  next
    case False
    have c0: "0 \<le> cosThetaI"
      using clamp_nonneg [OF assms(1)] by (simp add: cosThetaI_def)
    have "0 \<le> sinThetaI" by (simp add: sinThetaI_def)
    then have s0: "0 \<le> sinThetaT"
      using assms(2,3) by (simp add: sinThetaT_def)
    from False s0 have "sinThetaT * sinThetaT \<le> sinThetaT * 1"
      by (intro mult_left_mono) simp_all
    with False have "sinThetaT * sinThetaT < 1"
      by simp
    then have ct: "0 < cosThetaT"
      by (simp add: cosThetaT_def)
    have "Rparl * Rparl \<le> 1"
      unfolding Rparl_def using c0 ct assms(2,3) by (intro ratio_sq_le_1) simp_all
    moreover have "Rperp * Rperp \<le> 1"
      unfolding Rperp_def using c0 ct assms(2,3) by (intro ratio_sq_le_1) simp_all
    moreover have "0 \<le> Rparl * Rparl" and "0 \<le> Rperp * Rperp"
      by (rule zero_le_square)+
    moreover have "dielectric c etaI etaT = (Rparl * Rparl + Rperp * Rperp) / 2"
      using False unfold by simp
    ultimately show ?thesis by (simp only: half_sum_range)
  qed
qed

text \<open>
  C3, as stated, fails: the claim lets the cosine be any number, and at a negative
  cosine the two Fresnel ratios leave [-1, 1]. At \<open>cosThetaI = -1\<close>, \<open>etaI = 1\<close>,
  \<open>etaT = 3/2\<close> they are 5 and -5 and the function returns 25. Every step of this
  evaluation is exact in single precision as well.
\<close>

theorem dielectric_negative_cosine_counterexample:
  "(0::real) < 1 \<and> (0::real) < 3 / 2 \<and> dielectric (- 1) 1 (3 / 2) = 25
   \<and> \<not> dielectric (- 1) 1 (3 / 2) \<le> 1"
  by (simp add: dielectric_def clamp_def Let_def)

text \<open>
  C3, amended: for every cosine \<open>cosThetaI \<ge> 0\<close> (the only sign scatterRay ever
  passes) and every pair of indices \<open>etaI > 0\<close>, \<open>etaT > 0\<close>, dielectric returns a
  number in the closed interval [0, 1].
\<close>

theorem dielectric_range:
  assumes "0 \<le> cosThetaI" and "0 < etaI" and "0 < etaT"
  shows "0 \<le> dielectric cosThetaI etaI etaT \<and> dielectric cosThetaI etaI etaT \<le> 1"
  using assms by (rule dielectric_unit_interval)

theorem dielectric_range_witness:
  "0 \<le> dielectric 1 1 (3 / 2) \<and> dielectric 1 1 (3 / 2) \<le> 1"
  using dielectric_range [of 1 1 "3 / 2"] by simp

text \<open>
  C4: whenever \<open>sinThetaT = etaI / etaT * sinThetaI\<close> is at least 1, where
  \<open>sinThetaI\<close> is computed from the clamped cosine as the source does, dielectric
  returns exactly 1; in particular \<open>dielectric 0.3 1.5 1.0 = 1\<close>.
\<close>

theorem dielectric_total_internal_reflection:
  "(etaI / etaT * sqrt (max 0 (1 - clamp c (- 1) 1 * clamp c (- 1) 1)) \<ge> 1
      \<longrightarrow> dielectric c etaI etaT = 1)
   \<and> dielectric (3 / 10) (3 / 2) 1 = 1"
proof
  show "etaI / etaT * sqrt (max 0 (1 - clamp c (- 1) 1 * clamp c (- 1) 1)) \<ge> 1
      \<longrightarrow> dielectric c etaI etaT = 1"
    using dielectric_sinThetaT_ge_1 by blast
next
  have c: "clamp (3 / 10) (- 1) 1 = 3 / 10"
    by (simp add: clamp_def)
  have "(2 / 3 :: real) = sqrt ((2 / 3)\<^sup>2)" by simp
  also have "\<dots> \<le> sqrt (91 / 100)"
    by (subst real_sqrt_le_iff) (simp add: power2_eq_square)
  finally have "1 \<le> 3 / 2 / 1 * sqrt (max 0 (1 - 3 / 10 * (3 / 10)) :: real)" by simp
  then show "dielectric (3 / 10) (3 / 2) 1 = 1"
    by (intro dielectric_sinThetaT_ge_1) (simp only: c)
qed

theorem dielectric_total_internal_reflection_witness:
  "(3 / 2) / 1 * sqrt (max 0 (1 - clamp (3 / 5) (- 1) 1 * clamp (3 / 5) (- 1) 1)) \<ge> (1::real)
   \<and> dielectric (3 / 5) (3 / 2) 1 = 1"
proof -
  have c: "clamp (3 / 5) (- 1) 1 = 3 / 5"
    by (simp add: clamp_def)
  have "(3 / 2) / 1 * sqrt (max 0 (1 - 3 / 5 * (3 / 5))) \<ge> (1::real)"
    by (simp add: sqrt_16_25)
  then have h: "(3 / 2) / 1 * sqrt (max 0 (1 - clamp (3 / 5) (- 1) 1 * clamp (3 / 5) (- 1) 1))
                  \<ge> (1::real)"
    by (simp only: c)
  with dielectric_total_internal_reflection [of "3 / 2" 1 "3 / 5"] show ?thesis by blast
qed

section \<open>The scatter dispatcher\<close>

text \<open>
  C6: for every material with \<open>emittance > 0\<close>, and every path segment, hit point,
  normal, random engine and depth, scatterRay sets the flag \<open>dead\<close> and leaves the
  ray of the path segment (origin and direction) as it was.
\<close>

theorem scatterRay_emissive:
  assumes "emittance m > 0"
  shows "dead (fst (scatterRay pathSegment intersect normal m g depth))
       \<and> ray (fst (scatterRay pathSegment intersect normal m g depth)) = ray pathSegment"
  using assms by (simp add: scatterRay_def Let_def)

theorem scatterRay_emissive_witness:
  "emittance lamp > 0
   \<and> dead (fst (scatterRay downSegment vzero upNormal lamp (sconst 0) 0))
   \<and> ray (fst (scatterRay downSegment vzero upNormal lamp (sconst 0) 0)) = ray downSegment"
proof -
  have e: "emittance lamp > 0"
    by (simp add: lamp_def)
  from e scatterRay_emissive [OF e, of downSegment vzero upNormal "sconst 0" 0]
  show ?thesis by simp
qed

text \<open>
  C7: for every material with \<open>hasReflective\<close> set, \<open>hasRefractive\<close> unset and
  \<open>emittance \<le> 0\<close>, scatterRay multiplies the color of the path segment componentwise
  by the specular color, and sets the direction of the ray to the normalized reflection
  \<open>reflect wo normal\<close> of the normalized incoming direction \<open>wo\<close> about the normal.
  When the normal has unit length and the incoming direction is not the zero vector,
  that direction is \<open>reflect wo normal\<close> itself: it has unit length and the opposite
  normal component of \<open>wo\<close>.
\<close>

theorem scatterRay_reflective:
  assumes "emittance m \<le> 0" and "\<not> hasRefractive m" and "hasReflective m"
  shows "color (fst (scatterRay pathSegment intersect normal m g depth))
           = vmul (color pathSegment) (Specular.color (specular m))
       \<and> direction (ray (fst (scatterRay pathSegment intersect normal m g depth)))
           = normalize_vec (reflect (normalize_vec (direction (ray pathSegment))) normal)
       \<and> (vlength normal = 1 \<and> direction (ray pathSegment) \<noteq> vzero \<longrightarrow>
            direction (ray (fst (scatterRay pathSegment intersect normal m g depth)))
              = reflect (normalize_vec (direction (ray pathSegment))) normal
          \<and> dot normal (direction (ray (fst (scatterRay pathSegment intersect normal m g depth))))
              = - dot normal (normalize_vec (direction (ray pathSegment)))
          \<and> vlength (direction (ray (fst (scatterRay pathSegment intersect normal m g depth)))) = 1)"
proof -
  let ?wo = "normalize_vec (direction (ray pathSegment))"
  have d: "direction (ray (fst (scatterRay pathSegment intersect normal m g depth)))
           = normalize_vec (reflect ?wo normal)"
    using assms by (simp add: scatterRay_def finalize_def Let_def)
  have c: "color (fst (scatterRay pathSegment intersect normal m g depth))
           = vmul (color pathSegment) (Specular.color (specular m))"
    using assms by (simp add: scatterRay_def finalize_def Let_def)
  have g: "normalize_vec (reflect ?wo normal) = reflect ?wo normal
         \<and> dot normal (normalize_vec (reflect ?wo normal)) = - dot normal ?wo
         \<and> vlength (normalize_vec (reflect ?wo normal)) = 1"
    if n: "vlength normal = 1" and nz: "direction (ray pathSegment) \<noteq> vzero"
  proof -
    from n have n1: "dot normal normal = 1" by (simp add: vlength_one_iff)
    from nz have "dot ?wo ?wo = 1" by (rule dot_normalize_self)
    with n1 have r1: "dot (reflect ?wo normal) (reflect ?wo normal) = 1"
      by (simp add: reflect_preserves_length)
    then have e: "normalize_vec (reflect ?wo normal) = reflect ?wo normal"
      by (rule normalize_vec_unit)
    from e r1 n1 show ?thesis
      by (simp add: reflect_flips_normal_component vlength_one_iff)
  qed
  from g have "vlength normal = 1 \<and> direction (ray pathSegment) \<noteq> vzero \<longrightarrow>
       normalize_vec (reflect ?wo normal) = reflect ?wo normal
     \<and> dot normal (normalize_vec (reflect ?wo normal)) = - dot normal ?wo
     \<and> vlength (normalize_vec (reflect ?wo normal)) = 1"
    by blast
  with c show ?thesis
    unfolding d by (rule conjI [OF _ conjI [OF refl]])
qed

theorem scatterRay_reflective_witness:
  "emittance mirror \<le> 0 \<and> \<not> hasRefractive mirror \<and> hasReflective mirror
   \<and> vlength upNormal = 1 \<and> direction (ray downSegment) \<noteq> vzero
   \<and> color (fst (scatterRay downSegment vzero upNormal mirror (sconst 0) 0))
       = Vec3 (4 / 5) (4 / 5) (4 / 5)
   \<and> direction (ray (fst (scatterRay downSegment vzero upNormal mirror (sconst 0) 0)))
       = Vec3 0 0 1
   \<and> vlength (direction (ray (fst (scatterRay downSegment vzero upNormal mirror (sconst 0) 0))))
       = 1"
proof -
  have h: "emittance mirror \<le> 0" "\<not> hasRefractive mirror" "hasReflective mirror"
    by (simp_all add: mirror_def)
  have n: "vlength upNormal = 1"
    by (simp add: vlength_def dot_def upNormal_def)
  have nz: "direction (ray downSegment) \<noteq> vzero"
    by (simp add: downSegment_def vzero_def)
  have wo: "normalize_vec (direction (ray downSegment)) = Vec3 0 0 (- 1)"
    by (simp add: downSegment_def normalize_vec_def dot_def smul_def)
  have r: "normalize_vec (reflect (Vec3 0 0 (- 1)) upNormal) = Vec3 0 0 1"
    by (simp add: reflect_def upNormal_def normalize_vec_def dot_def smul_def vsub_def)
  have c: "vmul (color downSegment) (Specular.color (specular mirror))
             = Vec3 (4 / 5) (4 / 5) (4 / 5)"
    by (simp add: downSegment_def mirror_def vmul_def)
  from scatterRay_reflective [OF h, of downSegment vzero upNormal "sconst 0" 0] n nz
  have "color (fst (scatterRay downSegment vzero upNormal mirror (sconst 0) 0))
          = vmul (color downSegment) (Specular.color (specular mirror))
      \<and> direction (ray (fst (scatterRay downSegment vzero upNormal mirror (sconst 0) 0)))
          = normalize_vec (reflect (normalize_vec (direction (ray downSegment))) upNormal)
      \<and> vlength (direction (ray (fst (scatterRay downSegment vzero upNormal mirror (sconst 0) 0))))
          = 1"
    by blast
  with h n nz show ?thesis by (simp add: wo r c vlength_def dot_def)
qed

text \<open>
  C8: for every material with \<open>emittance \<le> 0\<close> and neither flag set, scatterRay
  leaves the color of the path segment exactly as it was, whatever the diffuse color of
  the material; the direction of the ray is the normalized direction returned by
  calculateRandomDirectionInHemisphere for the normal and the engine, and the engine is
  left as the sampler leaves it.
\<close>

theorem scatterRay_diffuse:
  assumes "emittance m \<le> 0" and "\<not> hasRefractive m" and "\<not> hasReflective m"
  shows "color (fst (scatterRay pathSegment intersect normal m g depth)) = color pathSegment
       \<and> direction (ray (fst (scatterRay pathSegment intersect normal m g depth)))
           = normalize_vec (fst (calculateRandomDirectionInHemisphere normal g))
       \<and> snd (scatterRay pathSegment intersect normal m g depth)
           = snd (calculateRandomDirectionInHemisphere normal g)"
  using assms by (simp add: scatterRay_def finalize_def Let_def split: prod.splits)

theorem scatterRay_diffuse_witness:
  "emittance chalk \<le> 0 \<and> \<not> hasRefractive chalk \<and> \<not> hasReflective chalk
   \<and> color (fst (scatterRay downSegment vzero upNormal chalk (sconst (1 / 4)) 0))
       = Vec3 1 1 1
   \<and> direction (ray (fst (scatterRay downSegment vzero upNormal chalk (sconst (1 / 4)) 0)))
       = normalize_vec (fst (calculateRandomDirectionInHemisphere upNormal (sconst (1 / 4))))"
proof -
  have h: "emittance chalk \<le> 0" "\<not> hasRefractive chalk" "\<not> hasReflective chalk"
    by (simp_all add: chalk_def)
  have c: "color downSegment = Vec3 1 1 1"
    by (simp add: downSegment_def)
  from h scatterRay_diffuse [OF h, of downSegment vzero upNormal "sconst (1 / 4)" 0]
  show ?thesis by (simp add: c)
qed

subsection \<open>The refractive branch\<close>

lemma refractedAndFresnel_le_1:
  assumes "0 < indexOfRefraction m"
  shows "snd (refractedAndFresnel wo normal m) \<le> 1"
proof (cases "dot normal wo < 0")
  case True
  then have "0 \<le> - dot normal wo" by simp
  from dielectric_unit_interval [OF this _ assms, of 1] True show ?thesis
    by (simp add: refractedAndFresnel_def Let_def)
next
  case False
  then have "0 \<le> dot normal wo" by simp
  from dielectric_unit_interval [OF this assms, of 1] False show ?thesis
    by (simp add: refractedAndFresnel_def Let_def)
qed

lemma refract_zero:
  assumes "1 < eta * eta * (1 - dot N I * dot N I)"
  shows "refract I N eta = vzero"
proof -
  have "\<not> 0 \<le> 1 - eta * eta * (1 - dot N I * dot N I)"
    using assms by linarith
  then show ?thesis
    unfolding refract_def Let_def by (rule if_not_P)
qed

lemma refractedAndFresnel_zero:
  assumes "1 < eta * eta * (1 - dot normal wo * dot normal wo)"
    and "eta = (if dot normal wo < 0 then 1 / indexOfRefraction m else indexOfRefraction m)"
  shows "fst (refractedAndFresnel wo normal m) = vzero"
proof (cases "dot normal wo < 0")
  case True
  with assms have "refract wo normal (1 / indexOfRefraction m) = vzero"
    by (intro refract_zero) simp
  with True show ?thesis
    by (simp add: refractedAndFresnel_def Let_def)
next
  case False
  with assms have "1 < indexOfRefraction m * indexOfRefraction m
                       * (1 - dot (vneg normal) wo * dot (vneg normal) wo)"
    by (simp add: dot_vneg_left)
  then have "refract wo (vneg normal) (indexOfRefraction m) = vzero"
    by (rule refract_zero)
  with False show ?thesis
    by (simp add: refractedAndFresnel_def Let_def)
qed

text \<open>The path of \<open>insideSegment\<close> through the refractive branch, step by step.\<close>

lemma insideSegment_wo:
  "normalize_vec (direction (ray insideSegment)) = Vec3 (4 / 5) 0 (3 / 5)"
  by (simp add: insideSegment_def normalize_vec_def dot_def smul_def)

lemma insideSegment_refracted:
  "refractedAndFresnel (Vec3 (4 / 5) 0 (3 / 5)) upNormal glass = (vzero, 1)"
proof -
  have c: "clamp (3 / 5) (- 1) 1 = 3 / 5"
    by (simp add: clamp_def)
  have "(3 / 2) / 1 * sqrt (max 0 (1 - 3 / 5 * (3 / 5))) \<ge> (1::real)"
    by (simp add: sqrt_16_25)
  then have "dielectric (3 / 5) (3 / 2) 1 = 1"
    by (intro dielectric_sinThetaT_ge_1) (simp only: c)
  then show ?thesis
    by (simp add: refractedAndFresnel_def Let_def upNormal_def glass_def dot_def
        refract_def vneg_def)
qed

lemma insideSegment_scatter:
  "scatterRay insideSegment vzero upNormal glass g depth
     = (insideSegment\<lparr>ray := \<lparr>origin = vzero, direction = vzero\<rparr>\<rparr>, g)"
proof -
  have "scatterRay insideSegment vzero upNormal glass g depth
      = (finalize (insideSegment\<lparr>color := vmul (color insideSegment)
           (smul (max 1 ((1 - 1) / \<bar>dot upNormal (Vec3 (4 / 5) 0 (3 / 5))\<bar>))
              (Specular.color (specular glass)))\<rparr>) vzero vzero, g)"
    by (simp add: scatterRay_def Let_def insideSegment_wo insideSegment_refracted)
      (simp add: glass_def)
  also have "\<dots> = (insideSegment\<lparr>ray := \<lparr>origin = vzero, direction = vzero\<rparr>\<rparr>, g)"
    by (simp add: finalize_def insideSegment_def glass_def vmul_def smul_def
        normalize_vec_def vadd_def vzero_def dot_def)
  finally show ?thesis .
qed

lemma downSegment_wo:
  "normalize_vec (direction (ray downSegment)) = Vec3 0 0 (- 1)"
  by (simp add: downSegment_def normalize_vec_def dot_def smul_def)

lemma antiGlass_fresnel:
  "refractedAndFresnel (Vec3 0 0 (- 1)) upNormal antiGlass = (Vec3 0 0 (- 1), 25)"
proof -
  have d: "dielectric 1 1 (- (3 / 2)) = 25"
    by (simp add: dielectric_def clamp_def Let_def)
  have r: "refract (Vec3 0 0 (- 1)) (Vec3 0 0 1) (- (2 / 3)) = Vec3 0 0 (- 1)"
    by (simp add: refract_def Let_def dot_def vsub_def smul_def)
  show ?thesis
    by (simp add: refractedAndFresnel_def Let_def upNormal_def antiGlass_def dot_def d r)
qed

lemma antiGlass_scatter:
  "direction (ray (fst (scatterRay downSegment vzero upNormal antiGlass g depth))) = Vec3 0 0 1"
proof -
  have r: "normalize_vec (reflect (Vec3 0 0 (- 1)) upNormal) = Vec3 0 0 1"
    by (simp add: reflect_def upNormal_def normalize_vec_def dot_def smul_def vsub_def)
  show ?thesis
    by (simp add: scatterRay_def Let_def downSegment_wo antiGlass_fresnel finalize_def r)
      (simp add: antiGlass_def)
qed

lemma ice_fresnel:
  "refractedAndFresnel (Vec3 (4 / 5) 0 (3 / 5)) upNormal ice = (Vec3 1 0 0, 1)"
proof -
  have c: "clamp (3 / 5) (- 1) 1 = 3 / 5"
    by (simp add: clamp_def)
  have "(5 / 4) / 1 * sqrt (max 0 (1 - 3 / 5 * (3 / 5))) \<ge> (1::real)"
    by (simp add: sqrt_16_25)
  then have d: "dielectric (3 / 5) (5 / 4) 1 = 1"
    by (intro dielectric_sinThetaT_ge_1) (simp only: c)
  have r: "refract (Vec3 (4 / 5) 0 (3 / 5)) (Vec3 0 0 (- 1)) (5 / 4) = Vec3 1 0 0"
    by (simp add: refract_def Let_def dot_def vsub_def smul_def)
  show ?thesis
    by (simp add: refractedAndFresnel_def Let_def upNormal_def ice_def dot_def vneg_def d r)
qed

text \<open>
  C5, as stated, fails in two places. First, the bound \<open>f \<le> 1\<close> does not follow from
  the non-negative cosine alone: for the material \<open>antiGlass\<close>, whose index is
  \<open>-3/2\<close>, a head-on path gets \<open>f = 25\<close>, the test \<open>f > 1\<close> passes and the direction
  written is the reflection \<open>(0, 0, 1)\<close>, not the refracted \<open>(0, 0, -1)\<close>. Second, the
  kept \<open>wi\<close> is not always the zero vector when dielectric reports total internal
  reflection: for \<open>ice\<close> (index 5/4) and \<open>insideSegment\<close>, exactly at the critical
  angle, dielectric returns 1 while refract returns the tangent \<open>(1, 0, 0)\<close>.
\<close>

theorem scatterRay_refractive_fallback_counterexample:
  "hasRefractive antiGlass \<and> emittance antiGlass \<le> 0
   \<and> 0 \<le> - dot upNormal (normalize_vec (direction (ray downSegment)))
   \<and> snd (refractedAndFresnel (normalize_vec (direction (ray downSegment))) upNormal antiGlass) = 25
   \<and> \<not> snd (refractedAndFresnel (normalize_vec (direction (ray downSegment))) upNormal antiGlass) \<le> 1
   \<and> fst (refractedAndFresnel (normalize_vec (direction (ray downSegment))) upNormal antiGlass)
       = Vec3 0 0 (- 1)
   \<and> direction (ray (fst (scatterRay downSegment vzero upNormal antiGlass (sconst 0) 0)))
       = Vec3 0 0 1
   \<and> hasRefractive ice \<and> emittance ice \<le> 0 \<and> 0 < indexOfRefraction ice
   \<and> dielectric (dot upNormal (normalize_vec (direction (ray insideSegment))))
        (indexOfRefraction ice) 1 = 1
   \<and> snd (refractedAndFresnel (normalize_vec (direction (ray insideSegment))) upNormal ice) = 1
   \<and> fst (refractedAndFresnel (normalize_vec (direction (ray insideSegment))) upNormal ice)
       = Vec3 1 0 0
   \<and> fst (refractedAndFresnel (normalize_vec (direction (ray insideSegment))) upNormal ice)
       \<noteq> vzero"
proof -
  have i: "dielectric (3 / 5) (5 / 4) 1 = 1"
    using ice_fresnel by (simp add: refractedAndFresnel_def Let_def upNormal_def ice_def dot_def)
  show ?thesis
    by (simp add: downSegment_wo insideSegment_wo antiGlass_fresnel antiGlass_scatter ice_fresnel)
      (simp add: antiGlass_def ice_def upNormal_def dot_def vzero_def i)
qed

text \<open>
  C5, amended: for a refractive material with \<open>emittance \<le> 0\<close> and a positive index of
  refraction, the Fresnel term \<open>f\<close> that scatterRay computes is at most 1, since
  dielectric is called with a non-negative cosine on either side of the sign test. So
  the test \<open>f > 1\<close> fails and scatterRay takes the other branch: the throughput is
  multiplied by \<open>specular.color * max 1 ((1 - f) / |cosThetaI|)\<close> and the refracted
  \<open>wi\<close> is what finalization receives. That \<open>wi\<close> is the zero vector whenever
  refract's own radicand \<open>1 - eta * eta * (1 - cosThetaI * cosThetaI)\<close> is negative,
  i.e. strictly beyond the critical angle.
\<close>

theorem scatterRay_refractive_keeps_refracted:
  assumes "emittance m \<le> 0" and "hasRefractive m" and "0 < indexOfRefraction m"
  shows "snd (refractedAndFresnel (normalize_vec (direction (ray pathSegment))) normal m) \<le> 1
       \<and> scatterRay pathSegment intersect normal m g depth
           = (finalize
                (pathSegment\<lparr>color := vmul (color pathSegment)
                   (smul (max 1 ((1 - snd (refractedAndFresnel
                                             (normalize_vec (direction (ray pathSegment))) normal m))
                                 / \<bar>dot normal (normalize_vec (direction (ray pathSegment)))\<bar>))
                         (Specular.color (specular m)))\<rparr>)
                intersect
                (fst (refractedAndFresnel (normalize_vec (direction (ray pathSegment))) normal m)),
              g)
       \<and> (1 < (if dot normal (normalize_vec (direction (ray pathSegment))) < 0
                 then 1 / indexOfRefraction m else indexOfRefraction m)
              * (if dot normal (normalize_vec (direction (ray pathSegment))) < 0
                 then 1 / indexOfRefraction m else indexOfRefraction m)
              * (1 - dot normal (normalize_vec (direction (ray pathSegment)))
                   * dot normal (normalize_vec (direction (ray pathSegment))))
            \<longrightarrow> fst (refractedAndFresnel (normalize_vec (direction (ray pathSegment))) normal m)
                  = vzero)"
proof -
  let ?wo = "normalize_vec (direction (ray pathSegment))"
  have f: "snd (refractedAndFresnel ?wo normal m) \<le> 1"
    using assms(3) by (rule refractedAndFresnel_le_1)
  then have nf: "\<not> 1 < snd (refractedAndFresnel ?wo normal m)" by simp
  have s: "scatterRay pathSegment intersect normal m g depth
           = (finalize
                (pathSegment\<lparr>color := vmul (color pathSegment)
                   (smul (max 1 ((1 - snd (refractedAndFresnel ?wo normal m))
                                 / \<bar>dot normal ?wo\<bar>))
                         (Specular.color (specular m)))\<rparr>)
                intersect
                (fst (refractedAndFresnel ?wo normal m)),
              g)"
    using assms(1,2) nf by (simp add: scatterRay_def Let_def case_prod_beta)
  have z: "1 < (if dot normal ?wo < 0 then 1 / indexOfRefraction m else indexOfRefraction m)
              * (if dot normal ?wo < 0 then 1 / indexOfRefraction m else indexOfRefraction m)
              * (1 - dot normal ?wo * dot normal ?wo)
            \<longrightarrow> fst (refractedAndFresnel ?wo normal m) = vzero"
    using refractedAndFresnel_zero [of _ normal ?wo m] by blast
  from f s z show ?thesis by blast
qed

theorem scatterRay_refractive_keeps_refracted_witness:
  "emittance glass \<le> 0 \<and> hasRefractive glass \<and> 0 < indexOfRefraction glass
   \<and> snd (refractedAndFresnel (normalize_vec (direction (ray insideSegment))) upNormal glass) \<le> 1
   \<and> fst (refractedAndFresnel (normalize_vec (direction (ray insideSegment))) upNormal glass)
       = vzero"
proof -
  have h: "emittance glass \<le> 0" "hasRefractive glass" "0 < indexOfRefraction glass"
    by (simp_all add: glass_def)
  have k: "1 < (if dot upNormal (normalize_vec (direction (ray insideSegment))) < 0
                 then 1 / indexOfRefraction glass else indexOfRefraction glass)
              * (if dot upNormal (normalize_vec (direction (ray insideSegment))) < 0
                 then 1 / indexOfRefraction glass else indexOfRefraction glass)
              * (1 - dot upNormal (normalize_vec (direction (ray insideSegment)))
                   * dot upNormal (normalize_vec (direction (ray insideSegment))))"
    by (simp add: insideSegment_wo upNormal_def dot_def glass_def)
  from h k scatterRay_refractive_keeps_refracted [OF h, of insideSegment upNormal vzero "sconst 0" 0]
  show ?thesis by blast
qed

text \<open>
  C1 does not hold of the code. The path \<open>insideSegment\<close> meets the surface of
  \<open>glass\<close> from inside, beyond the critical angle: dielectric reports total
  internal reflection by returning exactly 1 and refract returns the zero vector. The
  fallback is guarded by \<open>f > 1\<close>, which 1 does not pass, so the direction written is
  the normalization of the zero vector and not the reflection \<open>(4/5, 0, -3/5)\<close>, and
  the throughput is multiplied by \<open>max 1 ((1 - f) / |cosThetaI|) = 1\<close> and not by
  \<open>max 1 (f / |cosThetaI|) = 5/3\<close>.
  (Normalizing the zero vector divides by zero: the model yields the zero vector, single
  precision yields NaN in every component; neither is the reflection.)
\<close>

theorem scatterRay_total_internal_reflection_not_reflected:
  "hasRefractive glass \<and> emittance glass \<le> 0
   \<and> snd (refractedAndFresnel (normalize_vec (direction (ray insideSegment))) upNormal glass) = 1
   \<and> fst (refractedAndFresnel (normalize_vec (direction (ray insideSegment))) upNormal glass) = vzero
   \<and> direction (ray (fst (scatterRay insideSegment vzero upNormal glass (sconst 0) 0))) = vzero
   \<and> normalize_vec (reflect (normalize_vec (direction (ray insideSegment))) upNormal)
       = Vec3 (4 / 5) 0 (- 3 / 5)
   \<and> color (fst (scatterRay insideSegment vzero upNormal glass (sconst 0) 0)) = Vec3 1 1 1
   \<and> vmul (color insideSegment)
         (smul (max 1 (1 / \<bar>dot upNormal (normalize_vec (direction (ray insideSegment)))\<bar>))
               (Specular.color (specular glass)))
       = Vec3 (5 / 3) (5 / 3) (5 / 3)"
  by (simp add: insideSegment_scatter insideSegment_wo insideSegment_refracted)
    (simp add: glass_def insideSegment_def reflect_def normalize_vec_def upNormal_def
      dot_def smul_def vsub_def vmul_def)

text \<open>
  C2 does not hold of the code, at the same input: a unit normal, a unit incoming
  direction, a refractive material with a positive index and no emittance, and the
  direction on exit does not have length 1. (It is the normalization of the zero vector:
  the zero vector in the model, NaN in single precision.)
\<close>

theorem scatterRay_direction_not_unit_at_total_internal_reflection:
  "vlength upNormal = 1 \<and> vlength (direction (ray insideSegment)) = 1
   \<and> indexOfRefraction glass > 0 \<and> emittance glass \<le> 0
   \<and> vlength (direction (ray (fst (scatterRay insideSegment vzero upNormal glass (sconst 0) 0))))
       \<noteq> 1"
  by (simp add: insideSegment_scatter)
    (simp add: vlength_def dot_def upNormal_def insideSegment_def glass_def vzero_def)

end
